theory Spec2Isabelle
  imports Main "HOL-Library.Sublist"
begin

section \<open>Python values, errors and the external codecs\<close>

text \<open>
  The repository is three Cython classes: \<^verbatim>\<open>AdaptiveCompressor\<close> and
  \<^verbatim>\<open>HPCConnectionPool\<close> (both in \<^verbatim>\<open>compression.pyx\<close>) and
  \<^verbatim>\<open>CythonCRUDEngine\<close> (\<^verbatim>\<open>crud_engine.pyx\<close>).

  The source is read as written, statement by statement. A name that nothing binds
  raises \<^verbatim>\<open>NameError\<close>. An attribute that the \<^verbatim>\<open>cdef\<close> block of its class does
  not declare raises \<^verbatim>\<open>AttributeError\<close> where it is read and where it is assigned (an
  extension type has no instance dictionary): \<^verbatim>\<open>_strig_dict\<close>,
  \<^verbatim>\<open>_connection_pool\<close> and \<^verbatim>\<open>_query_cache_size\<close> are no attributes, whatever
  declared name they resemble. A comment runs to the end of its line, an expression that
  Python evaluates to an exception raises it, and the control flow follows the
  indentation of the file. The parameter type \<^verbatim>\<open>srt\<close> of \<^verbatim>\<open>create_bulk\<close> names no
  type; the parameter is taken as the string its docstring describes.
  A value returned from a method declared with the return type \<^verbatim>\<open>bytes\<close> is checked
  against that type, as Cython does. The C integers of the classes (sizes and counts) are
  modelled as integers; they stay far below the bound of a C \<^verbatim>\<open>int\<close> for lists
  shorter than \<open>2 ^ 30\<close>. An exception is a result \<open>Inl\<close> of the error; a method
  that changes its object returns the object after the call.
\<close>

type_synonym bytes = string

text \<open>
  Python objects, as far as the classes look at them. A \<^verbatim>\<open>dict\<close> is a list of
  key/value pairs in insertion order with string keys (a record of column values); a float
  \<open>PFloat m e\<close> is the finite value \<open>m * 2 ^ e\<close>; \<open>PTuple\<close> is a tuple and
  \<open>PList\<close> a list. Text is taken over the 8-bit
  characters of \<^typ>\<open>string\<close>; \<^verbatim>\<open>bytes\<close> objects are byte strings.
\<close>

datatype pyval =
    PNone
  | PBool bool
  | PInt int
  | PFloat int int
  | PStr string
  | PBytes bytes
  | PList "pyval list"
  | PTuple "pyval list"
  | PDict "(string \<times> pyval) list"

type_synonym pydict = "(string \<times> pyval) list"

datatype error =
    NameError string
  | AttributeError string
  | TypeError
  | ValueError
  | IndexError
  | UnicodeDecodeError
  | JSONDecodeError
  | OperationalError
  | IntegrityError

text \<open>
  The library functions the classes call and the repository does not define:
  \<^verbatim>\<open>json.dumps\<close>, \<^verbatim>\<open>json.loads\<close>, \<^verbatim>\<open>str.encode('utf-8')\<close>,
  \<^verbatim>\<open>bytes.decode('utf-8')\<close> and the builtin \<^verbatim>\<open>int\<close> on a string. They are
  parameters of the model; each one that can raise returns \<open>Inl\<close> of the error.
\<close>

record codec =
  json_dumps :: "pyval \<Rightarrow> error + string"
  json_loads :: "string \<Rightarrow> error + pyval"
  utf8_encode :: "string \<Rightarrow> bytes"
  utf8_decode :: "bytes \<Rightarrow> error + string"
  int_of_str :: "string \<Rightarrow> error + int"

subsection \<open>Dictionaries\<close>

text \<open>\<^verbatim>\<open>d[k] = v\<close>: an existing key keeps its place, a new key goes to the end.\<close>

fun dict_set :: "(string \<times> 'v) list \<Rightarrow> string \<Rightarrow> 'v \<Rightarrow> (string \<times> 'v) list" where
  "dict_set [] k v = [(k, v)]"
| "dict_set ((k', v') # d) k v = (if k' = k then (k, v) # d else (k', v') # dict_set d k v)"

text \<open>\<^verbatim>\<open>k in d\<close> and \<^verbatim>\<open>d[k]\<close> are \<open>map_of d k\<close>; \<^verbatim>\<open>d.keys()\<close> and
  \<^verbatim>\<open>d.values()\<close> are \<open>map fst d\<close> and \<open>map snd d\<close>.\<close>

definition isinstance_str :: "pyval \<Rightarrow> bool" where
  "isinstance_str v = (case v of PStr _ \<Rightarrow> True | _ \<Rightarrow> False)"

text \<open>The truth value of an object in a condition: \<^verbatim>\<open>None\<close>, \<^verbatim>\<open>False\<close>, zero and
  the empty string, bytes, list, tuple and dictionary are false.\<close>

definition truthy :: "pyval \<Rightarrow> bool" where
  "truthy v =
     (case v of
        PNone \<Rightarrow> False
      | PBool b \<Rightarrow> b
      | PInt n \<Rightarrow> n \<noteq> 0
      | PFloat m e \<Rightarrow> m \<noteq> 0
      | PStr s \<Rightarrow> s \<noteq> []
      | PBytes b \<Rightarrow> b \<noteq> []
      | PList xs \<Rightarrow> xs \<noteq> []
      | PTuple xs \<Rightarrow> xs \<noteq> []
      | PDict d \<Rightarrow> d \<noteq> [])"

text \<open>\<^verbatim>\<open>value == idx\<close> for an integer \<open>idx\<close>: numbers compare by value
  (\<^verbatim>\<open>True == 1\<close>, \<^verbatim>\<open>1.0 == 1\<close>), anything else is unequal to an integer.\<close>

definition py_eq_int :: "pyval \<Rightarrow> int \<Rightarrow> bool" where
  "py_eq_int v idx =
     (case v of
        PInt n \<Rightarrow> n = idx
      | PBool b \<Rightarrow> (if b then 1 else 0) = idx
      | PFloat m e \<Rightarrow> (if 0 \<le> e then m * 2 ^ nat e = idx else m = idx * 2 ^ nat (- e))
      | _ \<Rightarrow> False)"

text \<open>Cython's check of a value returned as \<^verbatim>\<open>bytes\<close>: a bytes object or
  \<^verbatim>\<open>None\<close> passes, anything else raises \<^verbatim>\<open>TypeError\<close>.\<close>

definition expect_bytes :: "pyval \<Rightarrow> error + pyval" where
  "expect_bytes v = (case v of PBytes b \<Rightarrow> Inr (PBytes b) | PNone \<Rightarrow> Inr PNone | _ \<Rightarrow> Inl TypeError)"

section \<open>AdaptiveCompressor\<close>

record compressor =
  string_dict :: pydict
  dict_size :: int
  enabled :: bool

text \<open>\<^verbatim>\<open>__init__(enabled)\<close>, lines 22-25. Its first statement, line 23, assigns
  \<^verbatim>\<open>self._strig_dict\<close>. The class declares \<^verbatim>\<open>_string_dict\<close>, \<^verbatim>\<open>_dict_size\<close>
  and \<^verbatim>\<open>_enabled\<close> (lines 17-20) and no attribute of the assigned name, so the
  assignment raises and lines 24 and 25 do not run: for either value of
  \<^verbatim>\<open>enabled\<close> the constructor raises and gives no object. The methods below are
  modelled on any state of the three declared attributes.\<close>

definition compressor_init :: "bool \<Rightarrow> error + compressor" where
  "compressor_init en = Inl (AttributeError ''_strig_dict'')"

text \<open>\<^verbatim>\<open>_compress_string\<close>, lines 48-58. The method mutates the object, so the
  model returns the result together with the compressor after the call.\<close>

definition compress_string :: "codec \<Rightarrow> compressor \<Rightarrow> string \<Rightarrow> (error + pyval) \<times> compressor" where
  "compress_string cd c s =
     (case map_of (string_dict c) s of
        Some v \<Rightarrow> (expect_bytes v, c)
      | None \<Rightarrow>
          (let encoded_value = utf8_encode cd s
           in (Inr (PBytes encoded_value),
               c\<lparr>string_dict := dict_set (string_dict c) s (PBytes encoded_value),
                 dict_size := dict_size c + 1\<rparr>)))"

text \<open>\<^verbatim>\<open>_compress_dict\<close>, lines 60-68: the loop over \<^verbatim>\<open>d.items()\<close>, then the
  serialisation of the dictionary it built.\<close>

fun compress_items :: "codec \<Rightarrow> compressor \<Rightarrow> pydict \<Rightarrow> pydict \<Rightarrow> (error + pydict) \<times> compressor" where
  "compress_items cd c [] compressed = (Inr compressed, c)"
| "compress_items cd c ((key, val) # items) compressed =
     (case val of
        PStr s \<Rightarrow>
          (case compress_string cd c s of
             (Inl e, c') \<Rightarrow> (Inl e, c')
           | (Inr tok, c') \<Rightarrow> compress_items cd c' items (dict_set compressed key tok))
      | _ \<Rightarrow> compress_items cd c items (dict_set compressed key val))"

definition dumps_utf8 :: "codec \<Rightarrow> pyval \<Rightarrow> error + pyval" where
  "dumps_utf8 cd data =
     (case json_dumps cd data of Inl e \<Rightarrow> Inl e | Inr t \<Rightarrow> Inr (PBytes (utf8_encode cd t)))"

definition compress_dict :: "codec \<Rightarrow> compressor \<Rightarrow> pydict \<Rightarrow> (error + pyval) \<times> compressor" where
  "compress_dict cd c d =
     (case compress_items cd c d [] of
        (Inl e, c') \<Rightarrow> (Inl e, c')
      | (Inr compressed, c') \<Rightarrow> (dumps_utf8 cd (PDict compressed), c'))"

text \<open>\<^verbatim>\<open>compress\<close>, lines 27-46. Line 41 is a comment up to its end, so the
  \<^verbatim>\<open>if isinstance(data, str):\<close> written in it is no statement. Line 42,
  \<^verbatim>\<open>return self._compress_string(data)\<close>, is indented as line 39 and so continues the
  body of \<^verbatim>\<open>if not self._enabled\<close> after its \<^verbatim>\<open>return\<close>: it never runs. The
  \<^verbatim>\<open>elif isinstance(data, str)\<close> of line 43 belongs to that \<^verbatim>\<open>if\<close>, and its body
  calls \<^verbatim>\<open>_compress_dict\<close>, whose parameter is declared \<^verbatim>\<open>dict d\<close>: an argument
  that is not a dictionary raises \<^verbatim>\<open>TypeError\<close> at the call. So with the compressor
  enabled a string raises, and every other value, a dictionary too, takes the
  \<^verbatim>\<open>else\<close> of lines 45-46.\<close>

definition compress :: "codec \<Rightarrow> compressor \<Rightarrow> pyval \<Rightarrow> (error + pyval) \<times> compressor" where
  "compress cd c data =
     (if \<not> enabled c then (dumps_utf8 cd data, c)
      else if isinstance_str data then
        (case data of PDict d \<Rightarrow> compress_dict cd c d | _ \<Rightarrow> (Inl TypeError, c))
      else (dumps_utf8 cd data, c))"

text \<open>The reverse lookup of \<^verbatim>\<open>decompress\<close>, lines 89-91: the first key, in
  insertion order, whose value equals \<^verbatim>\<open>idx\<close>.\<close>

fun reverse_lookup :: "pydict \<Rightarrow> int \<Rightarrow> string option" where
  "reverse_lookup [] idx = None"
| "reverse_lookup ((key, val) # items) idx =
     (if py_eq_int val idx then Some key else reverse_lookup items idx)"

text \<open>Lines 83-96 of \<^verbatim>\<open>decompress\<close> for a given binding of the name \<^verbatim>\<open>data\<close>:
  decode, the \<^verbatim>\<open>@\<close> branch (\<^verbatim>\<open>int\<close> may raise, outside the \<^verbatim>\<open>try\<close>), then
  \<^verbatim>\<open>json.loads\<close> under a bare \<^verbatim>\<open>except\<close> that returns the decoded text.\<close>

definition decode_data :: "codec \<Rightarrow> compressor \<Rightarrow> bytes \<Rightarrow> error + pyval" where
  "decode_data cd c data =
     (case utf8_decode cd data of
        Inl e \<Rightarrow> Inl e
      | Inr decoded \<Rightarrow>
          (case (if take 1 decoded = ''@''
                 then (case int_of_str cd (drop 1 decoded) of
                         Inl e \<Rightarrow> Inl e
                       | Inr idx \<Rightarrow> Inr (reverse_lookup (string_dict c) idx))
                 else Inr None) of
             Inl e \<Rightarrow> Inl e
           | Inr (Some key) \<Rightarrow> Inr (PStr key)
           | Inr None \<Rightarrow>
               (case json_loads cd decoded of Inr v \<Rightarrow> Inr v | Inl _ \<Rightarrow> Inr (PStr decoded))))"

text \<open>\<^verbatim>\<open>decompress\<close>, lines 70-96. The parameter is \<^verbatim>\<open>compressed_data\<close>; line 83
  reads \<^verbatim>\<open>data\<close>, which is neither a parameter nor a local nor a name of the module,
  so the lookup of the name among the bytes in scope fails.\<close>

definition decompress :: "codec \<Rightarrow> compressor \<Rightarrow> bytes \<Rightarrow> error + pyval" where
  "decompress cd c compressed_data =
     (if \<not> enabled c then
        (case utf8_decode cd compressed_data of Inl e \<Rightarrow> Inl e | Inr t \<Rightarrow> json_loads cd t)
      else
        (case map_of [(''compressed_data'', compressed_data)] ''data'' of
           None \<Rightarrow> Inl (NameError ''data'')
         | Some data \<Rightarrow> decode_data cd c data))"

text \<open>\<^verbatim>\<open>train_compression\<close>, lines 98-111: the inner loop over
  \<^verbatim>\<open>record.values()\<close>, then the loop over the samples.\<close>

fun train_values :: "compressor \<Rightarrow> pyval list \<Rightarrow> compressor" where
  "train_values c [] = c"
| "train_values c (val # vals) =
     (case val of
        PStr s \<Rightarrow>
          (if map_of (string_dict c) s = None
           then train_values
                  (c\<lparr>string_dict := dict_set (string_dict c) s (PInt (int (length (string_dict c)))),
                    dict_size := dict_size c + 1\<rparr>) vals
           else train_values c vals)
      | _ \<Rightarrow> train_values c vals)"

fun train_compression :: "compressor \<Rightarrow> pyval list \<Rightarrow> compressor" where
  "train_compression c [] = c"
| "train_compression c (record # data_samples) =
     (case record of
        PDict d \<Rightarrow> train_compression (train_values c (map snd d)) data_samples
      | _ \<Rightarrow> train_compression c data_samples)"

section \<open>The sqlite3 connection\<close>

text \<open>
  Connections and cursors belong to the \<^verbatim>\<open>sqlite3\<close> module, which the repository
  calls and does not define. The model takes the module as a parameter over a type
  \<open>'c\<close> of connection states: \<^verbatim>\<open>sqlite3.connect\<close>, \<^verbatim>\<open>execute\<close> (of a
  connection or of a cursor of it; the statement may raise and may change the connection
  either way), \<^verbatim>\<open>commit\<close> (which may raise), \<^verbatim>\<open>rollback\<close>, \<^verbatim>\<open>close\<close>,
  setting \<^verbatim>\<open>row_factory\<close>, and the attribute \<^verbatim>\<open>in_transaction\<close>. A cursor after \<^verbatim>\<open>execute\<close> is what the classes
  read from it: \<^verbatim>\<open>description\<close> (column names, \<^verbatim>\<open>None\<close> for a statement without a
  result set), \<^verbatim>\<open>fetchall()\<close>, \<^verbatim>\<open>rowcount\<close> and \<^verbatim>\<open>lastrowid\<close>.
\<close>

record cursor =
  description :: "string list option"
  fetchall :: "pyval list list"
  rowcount :: int
  lastrowid :: pyval

record 'c sqlite3 =
  sql_connect :: "string \<Rightarrow> error + 'c"
  sql_execute :: "'c \<Rightarrow> string \<Rightarrow> pyval list \<Rightarrow> (error + cursor) \<times> 'c"
  sql_commit :: "'c \<Rightarrow> error option \<times> 'c"
  sql_rollback :: "'c \<Rightarrow> 'c"
  sql_close :: "'c \<Rightarrow> 'c"
  sql_row_factory :: "'c \<Rightarrow> 'c"
  sql_in_transaction :: "'c \<Rightarrow> bool"

text \<open>Statements without parameters executed one after the other on a connection; the
  first that raises ends the sequence.\<close>

fun execute_all :: "'c sqlite3 \<Rightarrow> 'c \<Rightarrow> string list \<Rightarrow> error + 'c" where
  "execute_all st conn [] = Inr conn"
| "execute_all st conn (q # qs) =
     (case sql_execute st conn q [] of
        (Inl e, conn') \<Rightarrow> Inl e
      | (Inr cur, conn') \<Rightarrow> execute_all st conn' qs)"

section \<open>HPCConnectionPool\<close>

text \<open>The attributes of the class. The lock is not a field of the model: every method
  body runs inside \<^verbatim>\<open>with self._lock\<close>, so a method call is one atomic step on the
  pool, and while one call holds the lock no other call changes the pool.\<close>

record 'c pool =
  connections :: "'c list"
  max_size :: int
  wal_mode :: bool
  pool_db_path :: string

text \<open>\<^verbatim>\<open>_create_connection\<close>, lines 151-162.\<close>

definition create_connection :: "'c sqlite3 \<Rightarrow> 'c pool \<Rightarrow> error + 'c" where
  "create_connection st p =
     (case sql_connect st (pool_db_path p) of
        Inl e \<Rightarrow> Inl e
      | Inr conn \<Rightarrow>
          (case (if wal_mode p
                 then execute_all st conn
                        [''PRAGMA journal_mode=WAL'', ''PRAGMA synchronous=NORMAL'',
                         ''PRAGMA cache_size=64000'', ''PRAGMA temp_store=MEMORY'']
                 else Inr conn) of
             Inl e \<Rightarrow> Inl e
           | Inr conn' \<Rightarrow> Inr (sql_row_factory st conn')))"

text \<open>\<^verbatim>\<open>_initialize_pool\<close>, lines 145-149, as the number of iterations left; and
  \<^verbatim>\<open>__init__\<close>, lines 135-143.\<close>

fun initialize_pool :: "'c sqlite3 \<Rightarrow> 'c pool \<Rightarrow> nat \<Rightarrow> error + 'c pool" where
  "initialize_pool st p 0 = Inr p"
| "initialize_pool st p (Suc n) =
     (case create_connection st p of
        Inl e \<Rightarrow> Inl e
      | Inr conn \<Rightarrow> initialize_pool st (p\<lparr>connections := connections p @ [conn]\<rparr>) n)"

definition pool_init :: "'c sqlite3 \<Rightarrow> string \<Rightarrow> int \<Rightarrow> bool \<Rightarrow> error + 'c pool" where
  "pool_init st path msize wal =
     initialize_pool st
       \<lparr>connections = [], max_size = msize, wal_mode = wal, pool_db_path = path\<rparr>
       (nat (min 10 msize))"

text \<open>\<^verbatim>\<open>self._connections.pop()\<close> takes the last element of the list.\<close>

definition pop_connection :: "'c pool \<Rightarrow> 'c \<times> 'c pool" where
  "pop_connection p = (last (connections p), p\<lparr>connections := butlast (connections p)\<rparr>)"

text \<open>The loop of lines 178-180, \<^verbatim>\<open>while not self._connections: pass\<close> followed by
  the pop. It runs with the lock held, so nothing changes the list while it spins; a
  loop that never ends is the value \<open>None\<close>.\<close>

partial_function (option) await_connection :: "'c pool \<Rightarrow> ('c \<times> 'c pool) option" where
  "await_connection p =
     (if connections p = [] then await_connection p else Some (pop_connection p))"

declare await_connection.simps [code]

text \<open>\<^verbatim>\<open>get_connection\<close>, lines 164-180. The result is \<open>None\<close> when the call never
  returns, otherwise the connection or the error raised, with the pool after the call.\<close>

definition get_connection :: "'c sqlite3 \<Rightarrow> 'c pool \<Rightarrow> ((error + 'c) \<times> 'c pool) option" where
  "get_connection st p =
     (if connections p \<noteq> [] then
        (case pop_connection p of (conn, p') \<Rightarrow> Some (Inr conn, p'))
      else if int (length (connections p)) < max_size p then
        Some (create_connection st p, p)
      else
        (case await_connection p of
           None \<Rightarrow> None
         | Some (conn, p') \<Rightarrow> Some (Inr conn, p')))"

text \<open>\<^verbatim>\<open>release_connection\<close>, lines 182-193: the pool after the call and the
  connection as the call leaves it (pooled as it is, or closed).\<close>

definition release_connection :: "'c sqlite3 \<Rightarrow> 'c pool \<Rightarrow> 'c \<Rightarrow> 'c pool \<times> 'c" where
  "release_connection st p conn =
     (if int (length (connections p)) < max_size p
      then (p\<lparr>connections := connections p @ [conn]\<rparr>, conn)
      else (p, sql_close st conn))"

text \<open>\<^verbatim>\<open>close_all\<close>, lines 205-212: the emptied pool and the connections it closed.
  (\<^verbatim>\<open>optimize_connection\<close>, lines 195-203, does not touch the pool and is left out.)\<close>

definition close_all :: "'c sqlite3 \<Rightarrow> 'c pool \<Rightarrow> 'c pool \<times> 'c list" where
  "close_all st p = (p\<lparr>connections := []\<rparr>, map (sql_close st) (connections p))"

text \<open>Callers of the pool. A state of the system is the pool together with the
  connections that callers hold (checked out and not yet released). A caller acquires, or
  releases one of the connections held; a sequence of calls is run in the order in which
  the lock admits them. A call that never returns leaves no state (\<open>None\<close>), and so
  does the release of a connection that nobody holds.\<close>

datatype pool_call = Acquire | Release nat

record 'c pool_system =
  the_pool :: "'c pool"
  checked_out :: "'c list"

definition pool_call_step :: "'c sqlite3 \<Rightarrow> pool_call \<Rightarrow> 'c pool_system \<Rightarrow> 'c pool_system option" where
  "pool_call_step st call w =
     (case call of
        Acquire \<Rightarrow>
          (case get_connection st (the_pool w) of
             None \<Rightarrow> None
           | Some (Inl e, p') \<Rightarrow> Some (w\<lparr>the_pool := p'\<rparr>)
           | Some (Inr conn, p') \<Rightarrow> Some \<lparr>the_pool = p', checked_out = checked_out w @ [conn]\<rparr>)
      | Release i \<Rightarrow>
          (if i < length (checked_out w)
           then Some \<lparr>the_pool = fst (release_connection st (the_pool w) (checked_out w ! i)),
                      checked_out = take i (checked_out w) @ drop (Suc i) (checked_out w)\<rparr>
           else None))"

fun run_calls :: "'c sqlite3 \<Rightarrow> pool_call list \<Rightarrow> 'c pool_system \<Rightarrow> 'c pool_system option" where
  "run_calls st [] w = Some w"
| "run_calls st (call # calls) w =
     (case pool_call_step st call w of None \<Rightarrow> None | Some w' \<Rightarrow> run_calls st calls w')"

section \<open>CythonCRUDEngine\<close>

text \<open>The attributes declared in the \<^verbatim>\<open>cdef\<close> block of the class, lines 30-40.
  The constructor (lines 42-63) is not modelled: it assigns \<^verbatim>\<open>self.wal_enabled\<close>
  (line 56), which the block does not declare, and calls \<^verbatim>\<open>_init_connection_pool\<close>
  (line 60), which the class does not define; the operations are modelled on any state of
  the attributes. \<^verbatim>\<open>_query_cache\<close> is assigned once in the class, the empty dictionary
  of line 55, and no method reads it or stores into it; \<^verbatim>\<open>_compressor\<close> is declared and
  never assigned.\<close>

record 'c engine =
  db_path :: string
  use_compression :: bool
  max_connections :: int
  connections_pool :: "'c list"
  query_cache :: pydict
  engine_compressor :: "compressor option"
  wal_enabled :: bool
  batch_size :: int

text \<open>Reading an attribute of the engine by its name, for the attributes that hold a
  plain value (the list of connections and the compressor are read as the fields of the
  record). The names are those of the \<^verbatim>\<open>cdef\<close> block; any other name has no
  attribute behind it.\<close>

definition engine_getattr :: "'c engine \<Rightarrow> string \<Rightarrow> error + pyval" where
  "engine_getattr e name =
     (if name = ''db_path'' then Inr (PStr (db_path e))
      else if name = ''use_compression'' then Inr (PBool (use_compression e))
      else if name = ''max_connections'' then Inr (PInt (max_connections e))
      else if name = ''_query_cache'' then Inr (PDict (query_cache e))
      else if name = ''_wal_enabled'' then Inr (PBool (wal_enabled e))
      else if name = ''_batch_size'' then Inr (PInt (batch_size e))
      else Inl (AttributeError name))"

text \<open>\<^verbatim>\<open>_get_connection\<close>, lines 80-85. Line 82 tests \<^verbatim>\<open>self._connection_pool\<close>,
  line 83 pops from \<^verbatim>\<open>self._connections_pool\<close> (a \<^verbatim>\<open>pop\<close> from an empty list
  raises \<^verbatim>\<open>IndexError\<close>), line 85 opens a connection. The class declares
  \<^verbatim>\<open>_connections_pool\<close> and no attribute of the tested name, so reading it for the
  test raises \<^verbatim>\<open>AttributeError\<close> before either branch is chosen.\<close>

definition engine_get_connection :: "'c sqlite3 \<Rightarrow> 'c engine \<Rightarrow> (error + 'c) \<times> 'c engine" where
  "engine_get_connection st e =
     (case engine_getattr e ''_connection_pool'' of
        Inl err \<Rightarrow> (Inl err, e)
      | Inr tested \<Rightarrow>
          (if truthy tested then
             (if connections_pool e = [] then (Inl IndexError, e)
              else (Inr (last (connections_pool e)),
                    e\<lparr>connections_pool := butlast (connections_pool e)\<rparr>))
           else (sql_connect st (db_path e), e)))"

text \<open>\<^verbatim>\<open>_release_connection\<close>, lines 87-92 (the engine keeps its own list of
  connections and does not use \<^verbatim>\<open>HPCConnectionPool\<close>): the engine after the call and
  the connection as the call leaves it.\<close>

definition engine_release_connection :: "'c sqlite3 \<Rightarrow> 'c engine \<Rightarrow> 'c \<Rightarrow> 'c engine \<times> 'c" where
  "engine_release_connection st e conn =
     (if int (length (connections_pool e)) < max_connections e
      then (e\<lparr>connections_pool := connections_pool e @ [conn]\<rparr>, conn)
      else (e, sql_close st conn))"

subsection \<open>Strings and ranges\<close>

text \<open>\<^verbatim>\<open>sep.join(items)\<close> on strings; and on arbitrary objects, where the first item
  that is not a string raises \<^verbatim>\<open>TypeError\<close>.\<close>

fun str_join :: "string \<Rightarrow> string list \<Rightarrow> string" where
  "str_join sep [] = []"
| "str_join sep [s] = s"
| "str_join sep (s # t # ss) = s @ sep @ str_join sep (t # ss)"

fun strings_of :: "pyval list \<Rightarrow> error + string list" where
  "strings_of [] = Inr []"
| "strings_of (v # vs) =
     (case v of
        PStr s \<Rightarrow> (case strings_of vs of Inl e \<Rightarrow> Inl e | Inr ss \<Rightarrow> Inr (s # ss))
      | _ \<Rightarrow> Inl TypeError)"

definition py_join :: "string \<Rightarrow> pyval list \<Rightarrow> error + string" where
  "py_join sep items = (case strings_of items of Inl e \<Rightarrow> Inl e | Inr ss \<Rightarrow> Inr (str_join sep ss))"

text \<open>\<^verbatim>\<open>range(start, stop, step)\<close> as the list of its values: a zero step raises
  \<^verbatim>\<open>ValueError\<close>, a negative step from 0 gives nothing.\<close>

function range_from :: "int \<Rightarrow> int \<Rightarrow> int \<Rightarrow> int list" where
  "range_from start stop step =
     (if 0 < step \<and> start < stop then start # range_from (start + step) stop step else [])"
  by pat_completeness auto
termination
  by (relation "measure (\<lambda>(start, stop, step). nat (stop - start))") auto

definition py_range :: "int \<Rightarrow> int \<Rightarrow> int \<Rightarrow> error + int list" where
  "py_range start stop step = (if step = 0 then Inl ValueError else Inr (range_from start stop step))"

text \<open>\<^verbatim>\<open>xs[i:j]\<close> for \<open>0 \<le> i\<close> and \<open>0 \<le> j\<close>.\<close>

definition slice :: "'a list \<Rightarrow> int \<Rightarrow> int \<Rightarrow> 'a list" where
  "slice xs i j = take (nat (j - i)) (drop (nat i) xs)"

text \<open>\<^verbatim>\<open>dict(zip(columns, row))\<close>: a column name that occurs twice keeps its first
  place and its last value.\<close>

definition dict_of_pairs :: "(string \<times> pyval) list \<Rightarrow> pydict" where
  "dict_of_pairs ps = fold (\<lambda>(k, v) d. dict_set d k v) ps []"

subsection \<open>create_bulk\<close>

text \<open>\<^verbatim>\<open>_create_table_from_record\<close>, lines 244-262. \<^verbatim>\<open>bool\<close> is a subclass of
  \<^verbatim>\<open>int\<close>; a record that is not a dictionary has no \<^verbatim>\<open>items\<close>.\<close>

definition col_type :: "pyval \<Rightarrow> string" where
  "col_type v =
     (case v of
        PInt _ \<Rightarrow> ''INTEGER''
      | PBool _ \<Rightarrow> ''INTEGER''
      | PFloat _ _ \<Rightarrow> ''REAL''
      | PDict _ \<Rightarrow> ''TEXT''
      | PList _ \<Rightarrow> ''TEXT''
      | _ \<Rightarrow> ''TEXT'')"

definition create_table_query :: "string \<Rightarrow> pydict \<Rightarrow> string" where
  "create_table_query table_name d =
     ''CREATE TABLE IF NOT EXISTS '' @ table_name
       @ '' (id INTEGER PRIMARY KEY AUTOINCREMENT, ''
       @ str_join '', '' (map (\<lambda>(key, val). key @ '' '' @ col_type val) d) @ '')''"

definition create_table_from_record :: "'c sqlite3 \<Rightarrow> 'c \<Rightarrow> string \<Rightarrow> pyval \<Rightarrow> error option \<times> 'c" where
  "create_table_from_record st conn table_name r =
     (case r of
        PDict d \<Rightarrow>
          (case sql_execute st conn (create_table_query table_name d) [] of
             (Inl e, conn') \<Rightarrow> (Some e, conn')
           | (Inr cur, conn') \<Rightarrow> sql_commit st conn')
      | _ \<Rightarrow> (Some (AttributeError ''items''), conn))"

text \<open>Lines 124-126: the INSERT statement for a batch, built from the keys of its first
  record. Line 124 joins the values of the generator \<^verbatim>\<open>(['?'] for _ in keys)\<close>, which
  are one-element lists, not strings.\<close>

definition insert_query :: "string \<Rightarrow> pyval \<Rightarrow> error + string" where
  "insert_query table_name first_record =
     (case first_record of
        PDict d \<Rightarrow>
          (case py_join '', '' (map (\<lambda>_. PList [PStr ''?'']) (map fst d)) of
             Inl e \<Rightarrow> Inl e
           | Inr placeholders \<Rightarrow>
               (case py_join '', '' (map PStr (map fst d)) of
                  Inl e \<Rightarrow> Inl e
                | Inr columns \<Rightarrow>
                    Inr (''INSERT INTO '' @ table_name @ '' ('' @ columns @ '') VALUES (''
                         @ placeholders @ '')'')))
      | _ \<Rightarrow> Inl (AttributeError ''keys''))"

text \<open>Lines 130-132: the loop over the records of a batch, appending each
  \<^verbatim>\<open>lastrowid\<close> to \<^verbatim>\<open>inserted_ids\<close>.\<close>

fun insert_records :: "'c sqlite3 \<Rightarrow> 'c \<Rightarrow> string \<Rightarrow> pyval list \<Rightarrow> pyval list \<Rightarrow> (error + pyval list) \<times> 'c" where
  "insert_records st conn query [] inserted_ids = (Inr inserted_ids, conn)"
| "insert_records st conn query (r # batch) inserted_ids =
     (case r of
        PDict d \<Rightarrow>
          (case sql_execute st conn query (map snd d) of
             (Inl e, conn') \<Rightarrow> (Inl e, conn')
           | (Inr cur, conn') \<Rightarrow> insert_records st conn' query batch (inserted_ids @ [lastrowid cur]))
      | _ \<Rightarrow> (Inl (AttributeError ''values''), conn))"

text \<open>Lines 123-133: one batch, from building the statement to the commit.\<close>

definition insert_batch :: "'c sqlite3 \<Rightarrow> 'c \<Rightarrow> string \<Rightarrow> pyval list \<Rightarrow> pyval list \<Rightarrow> (error + pyval list) \<times> 'c" where
  "insert_batch st conn table_name batch inserted_ids =
     (case batch of
        [] \<Rightarrow> (Inl IndexError, conn)
      | first_record # _ \<Rightarrow>
          (case insert_query table_name first_record of
             Inl e \<Rightarrow> (Inl e, conn)
           | Inr query \<Rightarrow>
               (case insert_records st conn query batch inserted_ids of
                  (Inl e, conn') \<Rightarrow> (Inl e, conn')
                | (Inr ids, conn') \<Rightarrow>
                    (case sql_commit st conn' of
                       (Some e, conn'') \<Rightarrow> (Inl e, conn'')
                     | (None, conn'') \<Rightarrow> (Inr ids, conn'')))))"

text \<open>Lines 119-133: the loop over the batch starts.\<close>

fun insert_batches :: "'c sqlite3 \<Rightarrow> int \<Rightarrow> 'c \<Rightarrow> string \<Rightarrow> pyval list \<Rightarrow> int list \<Rightarrow> pyval list \<Rightarrow> (error + pyval list) \<times> 'c" where
  "insert_batches st bsize conn table_name records [] inserted_ids = (Inr inserted_ids, conn)"
| "insert_batches st bsize conn table_name records (batch_start # starts) inserted_ids =
     (let batch_end = min (batch_start + bsize) (int (length records));
          batch = slice records batch_start batch_end
      in case insert_batch st conn table_name batch inserted_ids of
           (Inl e, conn') \<Rightarrow> (Inl e, conn')
         | (Inr ids, conn') \<Rightarrow> insert_batches st bsize conn' table_name records starts ids)"

text \<open>\<^verbatim>\<open>create_bulk\<close>, lines 94-138. What stands inside \<^verbatim>\<open>try\<close> is
  \<open>create_bulk_body\<close>; the \<^verbatim>\<open>finally\<close> releases the connection on both outcomes.
  The call of \<^verbatim>\<open>_get_connection\<close> (line 111) stands before the \<^verbatim>\<open>try\<close>: when it
  raises, neither the body nor the \<^verbatim>\<open>finally\<close> runs.\<close>

definition create_bulk_body :: "'c sqlite3 \<Rightarrow> 'c engine \<Rightarrow> 'c \<Rightarrow> pyval list \<Rightarrow> string \<Rightarrow> (error + pyval list) \<times> 'c" where
  "create_bulk_body st e conn records table_name =
     (case (case records of
              [] \<Rightarrow> (None, conn)
            | first_record # _ \<Rightarrow> create_table_from_record st conn table_name first_record) of
        (Some err, conn1) \<Rightarrow> (Inl err, conn1)
      | (None, conn1) \<Rightarrow>
          (case py_range 0 (int (length records)) (batch_size e) of
             Inl err \<Rightarrow> (Inl err, conn1)
           | Inr starts \<Rightarrow> insert_batches st (batch_size e) conn1 table_name records starts []))"

definition create_bulk :: "'c sqlite3 \<Rightarrow> 'c engine \<Rightarrow> pyval list \<Rightarrow> string \<Rightarrow> (error + pyval list) \<times> 'c engine" where
  "create_bulk st e records table_name =
     (case engine_get_connection st e of
        (Inl err, e1) \<Rightarrow> (Inl err, e1)
      | (Inr conn, e1) \<Rightarrow>
          (case create_bulk_body st e1 conn records table_name of
             (res, conn') \<Rightarrow> (res, fst (engine_release_connection st e1 conn'))))"

subsection \<open>read_optimized\<close>

text \<open>Lines 166-173. The \<^verbatim>\<open>return results\<close> of line 173 stands inside the body of
  the \<^verbatim>\<open>for\<close> loop, after the \<^verbatim>\<open>append\<close>: the first iteration returns. When the
  loop has no row to run on, the function falls off its end and returns \<^verbatim>\<open>None\<close>.\<close>

fun rows_loop :: "string list \<Rightarrow> pyval list list \<Rightarrow> pyval list \<Rightarrow> pyval" where
  "rows_loop columns [] results = PNone"
| "rows_loop columns (row # rest) results =
     PList (results @ [PDict (dict_of_pairs (zip columns row))])"

definition read_rows :: "cursor \<Rightarrow> error + pyval" where
  "read_rows cur =
     (case description cur of
        None \<Rightarrow> Inl TypeError
      | Some columns \<Rightarrow> Inr (rows_loop columns (fetchall cur) []))"

text \<open>Lines 158-173: what stands inside the \<^verbatim>\<open>try\<close> of \<^verbatim>\<open>read_optimized\<close>, on the
  connection it is given.\<close>

definition read_optimized_body :: "'c sqlite3 \<Rightarrow> 'c \<Rightarrow> string \<Rightarrow> pydict \<Rightarrow> (error + pyval) \<times> 'c" where
  "read_optimized_body st conn query params =
     (case (if params \<noteq> [] then sql_execute st conn query (map snd params)
            else sql_execute st conn query []) of
        (Inl err, conn') \<Rightarrow> (Inl err, conn')
      | (Inr cur, conn') \<Rightarrow> (read_rows cur, conn'))"

text \<open>\<^verbatim>\<open>read_optimized\<close>, lines 140-176; \<open>params = None\<close> is the default argument.
  No statement of the method reads or writes \<^verbatim>\<open>_query_cache\<close>.\<close>

definition read_optimized :: "'c sqlite3 \<Rightarrow> 'c engine \<Rightarrow> string \<Rightarrow> pydict option \<Rightarrow> (error + pyval) \<times> 'c engine" where
  "read_optimized st e query params0 =
     (let params = (case params0 of None \<Rightarrow> [] | Some d \<Rightarrow> d) in
      case engine_get_connection st e of
        (Inl err, e1) \<Rightarrow> (Inl err, e1)
      | (Inr conn, e1) \<Rightarrow>
          (case read_optimized_body st conn query params of
             (res, conn') \<Rightarrow> (res, fst (engine_release_connection st e1 conn'))))"

subsection \<open>update_transactional and delete_cascade\<close>





subsection \<open>get_performance_metrics\<close>

text \<open>A dictionary display \<^verbatim>\<open>{k1: v1, k2: v2, ...}\<close>: the values are evaluated in
  order, and the first that raises ends the evaluation.\<close>

fun dict_display :: "(string \<times> (error + pyval)) list \<Rightarrow> pydict \<Rightarrow> error + pydict" where
  "dict_display [] d = Inr d"
| "dict_display ((k, v) # items) d =
     (case v of Inl e \<Rightarrow> Inl e | Inr x \<Rightarrow> dict_display items (dict_set d k x))"

text \<open>\<^verbatim>\<open>get_performance_metrics\<close>, lines 265-279.\<close>

definition get_performance_metrics :: "'c engine \<Rightarrow> error + pydict" where
  "get_performance_metrics e =
     dict_display
       [(''connection_pool_size'', Inr (PInt (int (length (connections_pool e))))),
        (''max_connections'', engine_getattr e ''max_connections''),
        (''wal_enabled'', engine_getattr e ''_wal_enabled''),
        (''compression_enabled'', engine_getattr e ''use_compression''),
        (''batch_size'', engine_getattr e ''_batch_size''),
        (''query_cache_size'', engine_getattr e ''_query_cache_size'')]
       []"

section \<open>Sample codec and sample database\<close>

text \<open>A sample of the codecs, for evaluating the classes on concrete inputs: the values
  Python gives on the few texts used below (\<^verbatim>\<open>json.loads("1") == 1\<close>,
  \<^verbatim>\<open>json.dumps([1, 2]) == "[1, 2]"\<close>, and \<^verbatim>\<open>json.dumps((1, 2)) == "[1, 2]"\<close> as
  well, since JSON has arrays only; UTF-8 is the identity on ASCII text).\<close>

definition sample_codec :: codec where
  "sample_codec =
     \<lparr>json_dumps = (\<lambda>v. if v = PList [PInt 1, PInt 2] then Inr ''[1, 2]''
                         else if v = PTuple [PInt 1, PInt 2] then Inr ''[1, 2]''
                         else if v = PInt 1 then Inr ''1'' else Inl TypeError),
      json_loads = (\<lambda>t. if t = ''[1, 2]'' then Inr (PList [PInt 1, PInt 2])
                         else if t = ''1'' then Inr (PInt 1) else Inl JSONDecodeError),
      utf8_encode = (\<lambda>s. s),
      utf8_decode = (\<lambda>b. Inr b),
      int_of_str = (\<lambda>s. if s = ''0'' then Inr 0 else if s = ''1'' then Inr 1 else Inl ValueError)\<rparr>"

text \<open>A sample of \<^verbatim>\<open>sqlite3\<close>, for evaluating the classes on concrete inputs: a
  database file with the one table
  \<^verbatim>\<open>users (id INTEGER PRIMARY KEY AUTOINCREMENT, name TEXT)\<close>. A connection holds the
  rows it sees, the rows last committed, and whether a transaction is open. The sample
  answers the statements that the inputs below execute: the four PRAGMAs of the pool (the
  first returns the journal mode as a row, the others return nothing),
  \<^verbatim>\<open>SELECT * FROM users\<close>, and the \<^verbatim>\<open>CREATE TABLE IF NOT EXISTS\<close> for the table as
  it exists, which changes nothing. None of them opens a transaction. Any other
  statement is outside the sample; it is answered with \<^verbatim>\<open>OperationalError\<close>, as a
  statement that the database cannot prepare. \<^verbatim>\<open>commit\<close> ends the transaction;
  \<^verbatim>\<open>rollback\<close> and \<^verbatim>\<open>close\<close> drop what was not committed.\<close>

record sample_conn =
  conn_rows :: "pyval list list"
  conn_committed :: "pyval list list"
  conn_in_transaction :: bool
  conn_closed :: bool
  conn_row_factory :: bool

definition no_result :: cursor where
  "no_result = \<lparr>description = None, fetchall = [], rowcount = - 1, lastrowid = PNone\<rparr>"

definition sample_execute :: "sample_conn \<Rightarrow> string \<Rightarrow> pyval list \<Rightarrow> (error + cursor) \<times> sample_conn" where
  "sample_execute conn q ps =
     (if q = ''SELECT * FROM users'' \<and> ps = [] then
        (Inr \<lparr>description = Some [''id'', ''name''], fetchall = conn_rows conn,
              rowcount = - 1, lastrowid = PNone\<rparr>, conn)
      else if q = ''PRAGMA journal_mode=WAL'' \<and> ps = [] then
        (Inr \<lparr>description = Some [''journal_mode''], fetchall = [[PStr ''wal'']],
              rowcount = - 1, lastrowid = PNone\<rparr>, conn)
      else if q \<in> set [''PRAGMA synchronous=NORMAL'', ''PRAGMA cache_size=64000'',
                         ''PRAGMA temp_store=MEMORY''] \<and> ps = [] then
        (Inr no_result, conn)
      else if q = ''CREATE TABLE IF NOT EXISTS users (id INTEGER PRIMARY KEY AUTOINCREMENT, name TEXT)''
              \<and> ps = [] then
        (Inr no_result, conn)
      else (Inl OperationalError, conn))"

text \<open>A connection as \<^verbatim>\<open>sqlite3.connect\<close> opens it while the table has no row, and a
  connection on the database with two committed rows.\<close>

definition new_conn :: sample_conn where
  "new_conn = \<lparr>conn_rows = [], conn_committed = [], conn_in_transaction = False,
                conn_closed = False, conn_row_factory = False\<rparr>"

definition sample_sqlite3 :: "sample_conn sqlite3" where
  "sample_sqlite3 =
     \<lparr>sql_connect = (\<lambda>path. Inr new_conn),
      sql_execute = sample_execute,
      sql_commit = (\<lambda>conn. (None, conn\<lparr>conn_committed := conn_rows conn,
                                         conn_in_transaction := False\<rparr>)),
      sql_rollback = (\<lambda>conn. conn\<lparr>conn_rows := conn_committed conn,
                                   conn_in_transaction := False\<rparr>),
      sql_close = (\<lambda>conn. conn\<lparr>conn_rows := conn_committed conn,
                                conn_in_transaction := False, conn_closed := True\<rparr>),
      sql_row_factory = (\<lambda>conn. conn\<lparr>conn_row_factory := True\<rparr>),
      sql_in_transaction = conn_in_transaction\<rparr>"

definition users_conn :: sample_conn where
  "users_conn = new_conn\<lparr>conn_rows := [[PInt 1, PStr ''a''], [PInt 2, PStr ''b'']],
                          conn_committed := [[PInt 1, PStr ''a''], [PInt 2, PStr ''b'']]\<rparr>"

text \<open>A state of the engine's attributes: one idle connection, on the database with two
  rows in \<^verbatim>\<open>users\<close>, and the empty cache.\<close>

definition sample_engine :: "sample_conn engine" where
  "sample_engine =
     \<lparr>db_path = ''app.db'', use_compression = True, max_connections = 64,
      connections_pool = [users_conn], query_cache = [], engine_compressor = None,
      wal_enabled = True, batch_size = 10000\<rparr>"

section \<open>Properties of the compressor\<close>

lemma map_of_dict_set: "map_of (dict_set d k v) k' = (if k' = k then Some v else map_of d k')"
  by (induction d) auto

lemma train_values_keeps:
  "map_of (string_dict c) s = Some v \<Longrightarrow> map_of (string_dict (train_values c vals)) s = Some v"
proof (induction vals arbitrary: c)
  case Nil
  then show ?case by simp
next
  case (Cons val vals)
  show ?case
  proof (cases val)
    case (PStr t)
    let ?c' = "c\<lparr>string_dict := dict_set (string_dict c) t (PInt (int (length (string_dict c)))),
                 dict_size := dict_size c + 1\<rparr>"
    show ?thesis
    proof (cases "map_of (string_dict c) t = None")
      case True
      with Cons.prems have "t \<noteq> s" by auto
      then have "map_of (string_dict ?c') s = Some v"
        using Cons.prems by (simp add: map_of_dict_set)
      then show ?thesis
        using PStr True Cons.IH [of ?c'] by simp
    next
      case False
      then show ?thesis
        using PStr Cons.IH [OF Cons.prems] by auto
    qed
  qed (use Cons in simp_all)
qed

lemma train_values_learns:
  "PStr s \<in> set vals \<Longrightarrow> map_of (string_dict (train_values c vals)) s \<noteq> None"
proof (induction vals arbitrary: c)
  case Nil
  then show ?case by simp
next
  case (Cons val vals)
  show ?case
  proof (cases "val = PStr s")
    case True
    then show ?thesis
      using train_values_keeps [where s = s and vals = vals]
      by (cases "map_of (string_dict c) s") (auto simp: map_of_dict_set)
  next
    case False
    with Cons.prems have "PStr s \<in> set vals" by simp
    then show ?thesis
      using Cons.IH by (auto split: pyval.splits)
  qed
qed

lemma train_compression_keeps:
  "map_of (string_dict c) s = Some v \<Longrightarrow>
   map_of (string_dict (train_compression c samples)) s = Some v"
  by (induction samples arbitrary: c) (auto simp: train_values_keeps split: pyval.splits)

lemma train_compression_learns:
  "PDict d \<in> set samples \<Longrightarrow> PStr s \<in> set (map snd d) \<Longrightarrow>
   map_of (string_dict (train_compression c samples)) s \<noteq> None"
proof (induction samples arbitrary: c)
  case Nil
  then show ?case by simp
next
  case (Cons r samples)
  show ?case
  proof (cases "r = PDict d")
    case True
    from Cons.prems(2) obtain v where "map_of (string_dict (train_values c (map snd d))) s = Some v"
      using train_values_learns by fastforce
    then show ?thesis
      using True train_compression_keeps by fastforce
  next
    case False
    with Cons.prems have "PDict d \<in> set samples" by simp
    then show ?thesis
      using Cons.IH Cons.prems(2) by (auto split: pyval.splits)
  qed
qed

lemma train_values_kind:
  "map_of (string_dict c) s = None \<Longrightarrow> map_of (string_dict (train_values c vals)) s = Some v \<Longrightarrow>
   \<exists>k. v = PInt k"
proof (induction vals arbitrary: c)
  case Nil
  then show ?case by simp
next
  case (Cons val vals)
  show ?case
  proof (cases val)
    case (PStr t)
    let ?c' = "c\<lparr>string_dict := dict_set (string_dict c) t (PInt (int (length (string_dict c)))),
                 dict_size := dict_size c + 1\<rparr>"
    show ?thesis
    proof (cases "map_of (string_dict c) t = None")
      case True
      note fresh = this
      show ?thesis
      proof (cases "t = s")
        case True
        have "map_of (string_dict ?c') s = Some (PInt (int (length (string_dict c))))"
          using True by (simp add: map_of_dict_set)
        then have "map_of (string_dict (train_values ?c' vals)) s
                     = Some (PInt (int (length (string_dict c))))"
          by (rule train_values_keeps)
        then have "v = PInt (int (length (string_dict c)))"
          using Cons.prems(2) PStr fresh by simp
        then show ?thesis by blast
      next
        case False
        then have "map_of (string_dict ?c') s = None"
          using Cons.prems(1) by (simp add: map_of_dict_set)
        then show ?thesis
          using Cons.IH [of ?c'] Cons.prems(2) PStr fresh by simp
      qed
    next
      case False
      then show ?thesis
        using PStr Cons.IH [OF Cons.prems(1)] Cons.prems(2) by auto
    qed
  qed (use Cons in simp_all)
qed

lemma train_compression_kind:
  "map_of (string_dict c) s = None \<Longrightarrow>
   map_of (string_dict (train_compression c samples)) s = Some v \<Longrightarrow> \<exists>k. v = PInt k"
proof (induction samples arbitrary: c)
  case Nil
  then show ?case by simp
next
  case (Cons r samples)
  show ?case
  proof (cases r)
    case (PDict d)
    show ?thesis
    proof (cases "map_of (string_dict (train_values c (map snd d))) s")
      case None
      then show ?thesis
        using Cons.IH [of "train_values c (map snd d)"] Cons.prems(2) PDict by simp
    next
      case (Some w)
      then have "map_of (string_dict (train_compression (train_values c (map snd d)) samples)) s
                   = Some w"
        by (rule train_compression_keeps)
      then have "w = v"
        using Cons.prems(2) PDict by simp
      then show ?thesis
        using train_values_kind [OF Cons.prems(1) Some] by simp
    qed
  qed (use Cons in simp_all)
qed

lemma decompress_enabled_raises: "enabled c \<Longrightarrow> decompress cd c b = Inl (NameError ''data'')"
  by (simp add: decompress_def)

lemma compress_string_again:
  "fst (compress_string cd (snd (compress_string cd c s)) s) = fst (compress_string cd c s)"
  by (cases "map_of (string_dict c) s")
     (simp_all add: compress_string_def Let_def map_of_dict_set expect_bytes_def)

text \<open>Training stores integers in the dictionary (line 110), and
  \<^verbatim>\<open>_compress_string\<close> returns the entry it finds (line 52) through its
  \<^verbatim>\<open>bytes\<close> return type: for every string that training added, the encode raises
  and leaves the compressor as training left it.\<close>

lemma train_then_compress_string_raises:
  assumes "PDict d \<in> set samples" and "PStr s \<in> set (map snd d)"
    and "map_of (string_dict c) s = None"
  shows "compress_string cd (train_compression c samples) s
           = (Inl TypeError, train_compression c samples)"
proof -
  obtain v where v: "map_of (string_dict (train_compression c samples)) s = Some v"
    using train_compression_learns [OF assms(1) assms(2)] by blast
  then obtain k where "v = PInt k"
    using train_compression_kind [OF assms(3)] by blast
  with v show ?thesis
    by (simp add: compress_string_def expect_bytes_def)
qed

text \<open>
  Claim C1. For every string \<open>s\<close>, decoding the token that \<^verbatim>\<open>_compress_string\<close> gave
  for \<open>s\<close> returns \<open>s\<close>, and a second encode returns the same token. On the code the
  round trip fails. The constructor raises at line 23, so no compressor is built. On a
  compressor with the empty dictionary that the constructor sets out to build, and
  enabled: \<^verbatim>\<open>decompress\<close> raises \<^verbatim>\<open>NameError\<close> at line 83 for every token; and
  lines 83-96 run on the token of the string \<^verbatim>\<open>"1"\<close> return the integer 1, which
  \<^verbatim>\<open>json.loads\<close> reads from it, not the string.
\<close>

theorem encode_then_decode_loses_the_string:
  "compressor_init True = Inl (AttributeError ''_strig_dict'')
   \<and> (case compress_string sample_codec \<lparr>string_dict = [], dict_size = 0, enabled = True\<rparr> ''1'' of
        (tok, c1) \<Rightarrow>
          tok = Inr (PBytes ''1'')
          \<and> decompress sample_codec c1 ''1'' = Inl (NameError ''data'')
          \<and> decode_data sample_codec c1 ''1'' = Inr (PInt 1)
          \<and> PInt 1 \<noteq> PStr ''1'')"
  by (simp add: compress_string_def compressor_init_def sample_codec_def decompress_def
      decode_data_def Let_def)

text \<open>
  Claim C8. After \<^verbatim>\<open>train_compression(samples)\<close>, \<^verbatim>\<open>_compress_string(s)\<close> on a
  string \<open>s\<close> that is a value in the samples allocates no new identifier and reuses the
  one that training assigned. On the code the encode returns no identifier: training
  stores the integer \<^verbatim>\<open>len(self._string_dict)\<close> under \<open>s\<close>, and
  \<^verbatim>\<open>_compress_string\<close>, declared to return \<^verbatim>\<open>bytes\<close>, returns the stored entry,
  which raises \<^verbatim>\<open>TypeError\<close>. At the input below, training on the one record
  \<^verbatim>\<open>{'name': 'ann'}\<close> stores 0 under \<^verbatim>\<open>'ann'\<close>; then \<^verbatim>\<open>_compress_string('ann')\<close>
  raises, and so does \<^verbatim>\<open>_compress_dict\<close> of the record, which calls it.
  (\<open>train_then_compress_string_raises\<close>: so it is for every string that training
  added.)
\<close>

theorem train_then_encode_raises_type_error:
  "train_compression \<lparr>string_dict = [], dict_size = 0, enabled = True\<rparr>
     [PDict [(''name'', PStr ''ann'')]]
     = \<lparr>string_dict = [(''ann'', PInt 0)], dict_size = 1, enabled = True\<rparr>
   \<and> compress_string sample_codec
       \<lparr>string_dict = [(''ann'', PInt 0)], dict_size = 1, enabled = True\<rparr> ''ann''
     = (Inl TypeError, \<lparr>string_dict = [(''ann'', PInt 0)], dict_size = 1, enabled = True\<rparr>)
   \<and> compress_dict sample_codec
       \<lparr>string_dict = [(''ann'', PInt 0)], dict_size = 1, enabled = True\<rparr>
       [(''name'', PStr ''ann'')]
     = (Inl TypeError, \<lparr>string_dict = [(''ann'', PInt 0)], dict_size = 1, enabled = True\<rparr>)"
  by (simp add: compress_string_def expect_bytes_def compress_dict_def)

text \<open>
  Claim C10. With the compressor disabled, \<^verbatim>\<open>decompress(compress(x)) == x\<close> for every
  JSON-serializable \<open>x\<close>. It fails for a tuple, which \<^verbatim>\<open>json.dumps\<close> serialises as an
  array and \<^verbatim>\<open>json.loads\<close> reads back as a list: at the input below
  \<^verbatim>\<open>compress((1, 2))\<close> is \<^verbatim>\<open>b'[1, 2]'\<close>, \<^verbatim>\<open>decompress\<close> of it is the list
  \<^verbatim>\<open>[1, 2]\<close>, and \<^verbatim>\<open>[1, 2] == (1, 2)\<close> is false.
\<close>

theorem disabled_mode_turns_a_tuple_into_a_list:
  "compress sample_codec \<lparr>string_dict = [], dict_size = 0, enabled = False\<rparr>
     (PTuple [PInt 1, PInt 2])
     = (Inr (PBytes ''[1, 2]''), \<lparr>string_dict = [], dict_size = 0, enabled = False\<rparr>)
   \<and> decompress sample_codec \<lparr>string_dict = [], dict_size = 0, enabled = False\<rparr> ''[1, 2]''
     = Inr (PList [PInt 1, PInt 2])
   \<and> PList [PInt 1, PInt 2] \<noteq> PTuple [PInt 1, PInt 2]"
  by (simp add: compress_def dumps_utf8_def decompress_def sample_codec_def)

text \<open>
  Claim C10, amended. With the compressor disabled, \<^verbatim>\<open>compress(x)\<close> is the UTF-8
  encoding of \<^verbatim>\<open>json.dumps(x)\<close> and leaves the compressor as it was, for every value
  \<open>x\<close> that \<^verbatim>\<open>json.dumps\<close> serialises; \<^verbatim>\<open>decompress\<close> of these bytes is
  \<^verbatim>\<open>json.loads(json.dumps(x))\<close>, that is the value that JSON reads back, which need
  not be \<open>x\<close>; and what \<^verbatim>\<open>decompress\<close> returns does not depend on the dictionary.
  (The text that \<^verbatim>\<open>json.dumps\<close> gives is ASCII, which UTF-8 decodes to itself.)
\<close>

theorem disabled_mode_is_the_json_round_trip:
  assumes "\<not> enabled c"
    and "json_dumps cd x = Inr t"
    and "utf8_decode cd (utf8_encode cd t) = Inr t"
  shows "compress cd c x = (Inr (PBytes (utf8_encode cd t)), c)
         \<and> decompress cd c (utf8_encode cd t) = json_loads cd t
         \<and> decompress cd (c\<lparr>string_dict := d, dict_size := n\<rparr>) b = decompress cd c b"
  using assms by (simp add: compress_def dumps_utf8_def decompress_def)

theorem disabled_mode_is_the_json_round_trip_witness:
  "\<not> enabled \<lparr>string_dict = [], dict_size = 0, enabled = False\<rparr>
   \<and> json_dumps sample_codec (PList [PInt 1, PInt 2]) = Inr ''[1, 2]''
   \<and> utf8_decode sample_codec (utf8_encode sample_codec ''[1, 2]'') = Inr ''[1, 2]''
   \<and> compress sample_codec \<lparr>string_dict = [], dict_size = 0, enabled = False\<rparr>
         (PList [PInt 1, PInt 2])
       = (Inr (PBytes ''[1, 2]''), \<lparr>string_dict = [], dict_size = 0, enabled = False\<rparr>)
   \<and> decompress sample_codec \<lparr>string_dict = [], dict_size = 0, enabled = False\<rparr> ''[1, 2]''
       = Inr (PList [PInt 1, PInt 2])"
  using disabled_mode_is_the_json_round_trip
    [of "\<lparr>string_dict = [], dict_size = 0, enabled = False\<rparr>" sample_codec
        "PList [PInt 1, PInt 2]" "''[1, 2]''"]
  by (simp add: sample_codec_def)

section \<open>Properties of the connection pool\<close>

lemma await_connection_returns:
  assumes returns: "await_connection p = Some r"
  shows "connections p \<noteq> []"
  by (rule await_connection.raw_induct [where P = "\<lambda>p r. connections p \<noteq> []", OF _ returns])
     (auto split: if_splits)

lemma await_connection_spins: "connections p = [] \<Longrightarrow> await_connection p = None"
  using await_connection_returns [of p] by (cases "await_connection p") auto

text \<open>
  Claim C2. In every state reached by acquire and release calls on a pool of capacity
  \<^verbatim>\<open>max_size\<close>, at most \<^verbatim>\<open>max_size\<close> connections are checked out, and idle plus
  checked out is at most \<^verbatim>\<open>max_size\<close>. On the code it fails: the second branch of
  \<^verbatim>\<open>get_connection\<close> compares the length of the idle list, which is 0 there, with
  \<^verbatim>\<open>max_size\<close>, so an acquire on an empty idle list always creates a connection. A pool
  of capacity 1 hands out two connections to two acquires in a row.
\<close>

theorem acquire_beyond_max_size:
  "(case pool_init sample_sqlite3 ''app.db'' 1 True of
      Inl e \<Rightarrow> False
    | Inr p0 \<Rightarrow>
        max_size p0 = 1 \<and> length (connections p0) = 1
        \<and> (case run_calls sample_sqlite3 [Acquire, Acquire] \<lparr>the_pool = p0, checked_out = []\<rparr> of
              None \<Rightarrow> False
            | Some w \<Rightarrow>
                max_size (the_pool w) = 1
                \<and> length (checked_out w) = 2
                \<and> length (connections (the_pool w)) + length (checked_out w) = 2))"
  by (simp add: pool_init_def create_connection_def sample_sqlite3_def sample_execute_def
        no_result_def pool_call_step_def get_connection_def pop_connection_def)

text \<open>
  Claim C3. An acquire on a saturated pool returns the \<^verbatim>\<open>PoolExhausted\<close> error once
  its timeout elapses, without blocking for ever or busy-waiting. The code has neither a
  timeout nor such an error. At the input below the pool of capacity 1 has its one
  connection checked out and none idle, and \<^verbatim>\<open>get_connection\<close> returns a connection
  and no error.
\<close>

theorem saturated_acquire_returns_a_connection:
  "(case pool_init sample_sqlite3 ''app.db'' 1 True of
      Inl e \<Rightarrow> False
    | Inr p0 \<Rightarrow>
        (case run_calls sample_sqlite3 [Acquire] \<lparr>the_pool = p0, checked_out = []\<rparr> of
           None \<Rightarrow> False
         | Some w \<Rightarrow>
             int (length (checked_out w)) = max_size (the_pool w)
             \<and> connections (the_pool w) = []
             \<and> (case get_connection sample_sqlite3 (the_pool w) of
                   None \<Rightarrow> False
                 | Some (Inl e, p') \<Rightarrow> False
                 | Some (Inr conn, p') \<Rightarrow> p' = the_pool w \<and> \<not> conn_closed conn)))"
  by (simp add: pool_init_def create_connection_def sample_sqlite3_def sample_execute_def
        no_result_def pool_call_step_def get_connection_def pop_connection_def new_conn_def)

text \<open>
  Claim C3, amended. \<^verbatim>\<open>get_connection\<close> takes no timeout and has no error of its own:
  a call that finds an idle connection returns it at once; an error it returns is the one
  that creating a connection raised; and the only wait in it is the loop
  \<^verbatim>\<open>while not self._connections: pass\<close>, run with the lock held, which is entered when
  no connection is idle and \<^verbatim>\<open>max_size <= 0\<close> and then never returns.
\<close>

theorem get_connection_waits_only_by_spinning:
  "(connections p \<noteq> [] \<longrightarrow>
      get_connection st p
        = Some (Inr (last (connections p)), p\<lparr>connections := butlast (connections p)\<rparr>))
   \<and> (connections p = [] \<and> max_size p \<le> 0 \<longrightarrow> get_connection st p = None)
   \<and> (\<forall>e p'. get_connection st p = Some (Inl e, p') \<longrightarrow> create_connection st p = Inl e \<and> p' = p)"
  by (auto simp: get_connection_def pop_connection_def await_connection_spins
      split: option.splits prod.splits)

theorem get_connection_waits_only_by_spinning_witness:
  "connections \<lparr>connections = [new_conn], max_size = 1, wal_mode = True, pool_db_path = ''app.db''\<rparr> \<noteq> []
   \<and> get_connection sample_sqlite3
        \<lparr>connections = [new_conn], max_size = 1, wal_mode = True, pool_db_path = ''app.db''\<rparr>
       = Some (Inr new_conn,
               \<lparr>connections = [], max_size = 1, wal_mode = True, pool_db_path = ''app.db''\<rparr>)
   \<and> get_connection sample_sqlite3
        \<lparr>connections = [], max_size = 0, wal_mode = True, pool_db_path = ''app.db''\<rparr> = None
   \<and> get_connection (sample_sqlite3\<lparr>sql_connect := \<lambda>path. Inl OperationalError\<rparr>)
        \<lparr>connections = [], max_size = 1, wal_mode = True, pool_db_path = ''app.db''\<rparr>
       = Some (Inl OperationalError,
               \<lparr>connections = [], max_size = 1, wal_mode = True, pool_db_path = ''app.db''\<rparr>)
   \<and> create_connection (sample_sqlite3\<lparr>sql_connect := \<lambda>path. Inl OperationalError\<rparr>)
        \<lparr>connections = [], max_size = 1, wal_mode = True, pool_db_path = ''app.db''\<rparr>
       = Inl OperationalError"
  using get_connection_waits_only_by_spinning
      [of "\<lparr>connections = [new_conn], max_size = 1, wal_mode = True, pool_db_path = ''app.db''\<rparr>"
          sample_sqlite3]
    get_connection_waits_only_by_spinning
      [of "\<lparr>connections = [], max_size = 0, wal_mode = True, pool_db_path = ''app.db''\<rparr>"
          sample_sqlite3]
    get_connection_waits_only_by_spinning
      [of "\<lparr>connections = [], max_size = 1, wal_mode = True, pool_db_path = ''app.db''\<rparr>"
          "sample_sqlite3\<lparr>sql_connect := \<lambda>path. Inl OperationalError\<rparr>"]
  by (simp add: get_connection_def create_connection_def sample_sqlite3_def)

section \<open>Properties of the engine\<close>

lemmas sample_defs =
  sample_engine_def users_conn_def new_conn_def sample_sqlite3_def sample_execute_def no_result_def

text \<open>Line 124 raises for every first record that has a column.\<close>

lemma insert_query_columns:
  "d \<noteq> [] \<Longrightarrow> insert_query table_name (PDict d) = Inl TypeError"
  by (cases d) (simp_all add: insert_query_def py_join_def)

lemma range_from_start:
  "0 < step \<Longrightarrow> start < stop \<Longrightarrow>
   range_from start stop step = start # range_from (start + step) stop step"
  by simp

lemma create_bulk_body_columns:
  assumes "create_table_from_record st conn table_name (PDict d) = (None, conn1)"
    and "d \<noteq> []" and "0 < batch_size e"
  shows "create_bulk_body st e conn (PDict d # records) table_name = (Inl TypeError, conn1)"
proof -
  have "range_from 0 (int (length (PDict d # records))) (batch_size e)
          = 0 # range_from (0 + batch_size e) (int (length (PDict d # records))) (batch_size e)"
    using assms(3) by (intro range_from_start) simp_all
  moreover have "slice (PDict d # records) 0 (min (0 + batch_size e) (int (length (PDict d # records))))
          = PDict d # take (nat (min (batch_size e) (1 + int (length records))) - 1) records"
    using assms(3) by (simp add: slice_def take_Cons')
  ultimately show ?thesis
    using assms
    by (simp add: create_bulk_body_def py_range_def insert_batch_def insert_query_columns Let_def
        del: range_from.simps)
qed

text \<open>\<^verbatim>\<open>_get_connection\<close> raises at line 82 on every call, for every state of the
  engine, and leaves the engine as it was: neither the \<^verbatim>\<open>pop\<close> of line 83 nor the
  \<^verbatim>\<open>sqlite3.connect\<close> of line 85 runs.\<close>

lemma engine_get_connection_raises:
  "engine_get_connection st e = (Inl (AttributeError ''_connection_pool''), e)"
  by (simp add: engine_get_connection_def engine_getattr_def)

text \<open>Each of the four operations calls \<^verbatim>\<open>_get_connection\<close> before its \<^verbatim>\<open>try\<close>
  (\<^verbatim>\<open>read_optimized\<close> after giving \<^verbatim>\<open>params\<close> its default), so the operation raises
  the same error and leaves the engine as it was. No statement is executed, nothing is
  committed, and no connection is taken, released or closed: the result is the same for
  every \<^verbatim>\<open>sqlite3\<close>.\<close>

lemma create_bulk_raises:
  "create_bulk st e records table_name = (Inl (AttributeError ''_connection_pool''), e)"
  by (simp add: create_bulk_def engine_get_connection_raises)

lemma read_optimized_raises:
  "read_optimized st e query params0 = (Inl (AttributeError ''_connection_pool''), e)"
  by (simp add: read_optimized_def engine_get_connection_raises)



text \<open>
  Claim C4. \<^verbatim>\<open>read_optimized(query, params)\<close> returns the stored result on a cache
  hit, and on a miss executes the query, converts every result row to a record, stores
  the full result set and returns it. On the code no call returns a result set. At the
  input below the table \<^verbatim>\<open>users\<close> has the two rows \<^verbatim>\<open>(1, 'a')\<close> and \<^verbatim>\<open>(2, 'b')\<close>
  and the cache is empty (a miss). The call raises \<^verbatim>\<open>AttributeError\<close> at line 82,
  before the query is executed. The statements of its \<^verbatim>\<open>try\<close>, run on a connection to
  that database, execute the query, which gives both rows, and return the record of the
  first row alone: the \<^verbatim>\<open>return results\<close> of line 173 stands inside the
  \<^verbatim>\<open>for\<close> loop; on a result set without rows they return \<^verbatim>\<open>None\<close>. The docstring of
  the method says \<^verbatim>\<open>Returns: List of result rows\<close>.
\<close>

theorem read_optimized_returns_no_result_set:
  "read_optimized sample_sqlite3 sample_engine ''SELECT * FROM users'' None
     = (Inl (AttributeError ''_connection_pool''), sample_engine)
   \<and> query_cache sample_engine = []
   \<and> sql_execute sample_sqlite3 users_conn ''SELECT * FROM users'' []
     = (Inr \<lparr>description = Some [''id'', ''name''],
             fetchall = [[PInt 1, PStr ''a''], [PInt 2, PStr ''b'']],
             rowcount = - 1, lastrowid = PNone\<rparr>, users_conn)
   \<and> read_optimized_body sample_sqlite3 users_conn ''SELECT * FROM users'' []
     = (Inr (PList [PDict [(''id'', PInt 1), (''name'', PStr ''a'')]]), users_conn)
   \<and> read_rows \<lparr>description = Some [''id'', ''name''], fetchall = [],
                 rowcount = - 1, lastrowid = PNone\<rparr>
     = Inr PNone"
  by (simp add: read_optimized_raises read_optimized_body_def read_rows_def dict_of_pairs_def
      sample_defs)



text \<open>
  Claim C7. \<^verbatim>\<open>create_bulk\<close> inserts the records in batches, each in its own
  transaction, and returns the assigned identifiers in insertion order. On the code no
  call returns identifiers. The call raises \<^verbatim>\<open>AttributeError\<close> at line 82, before its
  \<^verbatim>\<open>try\<close>. And the statements of the \<^verbatim>\<open>try\<close>, run on a connection to the database,
  fail before the first INSERT for every list whose first record has a column: line 124
  joins one-element lists instead of strings, which raises \<^verbatim>\<open>TypeError\<close>. For the three
  records of the specification's example the table statement is executed, no row is
  inserted, and the error is raised.
\<close>

theorem create_bulk_raises_type_error:
  "create_bulk sample_sqlite3 sample_engine
     [PDict [(''name'', PStr ''a'')], PDict [(''name'', PStr ''b'')], PDict [(''name'', PStr ''c'')]]
     ''users''
     = (Inl (AttributeError ''_connection_pool''), sample_engine)
   \<and> create_bulk_body sample_sqlite3 sample_engine users_conn
     [PDict [(''name'', PStr ''a'')], PDict [(''name'', PStr ''b'')], PDict [(''name'', PStr ''c'')]]
     ''users''
     = (Inl TypeError, users_conn)"
proof -
  have "create_table_from_record sample_sqlite3 users_conn ''users'' (PDict [(''name'', PStr ''a'')])
          = (None, users_conn)"
    by (simp add: create_table_from_record_def create_table_query_def col_type_def sample_defs)
  then have "create_bulk_body sample_sqlite3 sample_engine users_conn
       (PDict [(''name'', PStr ''a'')] # [PDict [(''name'', PStr ''b'')], PDict [(''name'', PStr ''c'')]])
       ''users''
     = (Inl TypeError, users_conn)"
    by (rule create_bulk_body_columns) (simp_all add: sample_engine_def)
  then show ?thesis
    by (simp add: create_bulk_raises)
qed

lemma metrics_declared_values:
  "dict_display
     [(''connection_pool_size'', Inr (PInt (int (length (connections_pool e))))),
      (''max_connections'', engine_getattr e ''max_connections''),
      (''wal_enabled'', engine_getattr e ''_wal_enabled''),
      (''compression_enabled'', engine_getattr e ''use_compression''),
      (''batch_size'', engine_getattr e ''_batch_size'')]
     []
   = Inr [(''connection_pool_size'', PInt (int (length (connections_pool e)))),
          (''max_connections'', PInt (max_connections e)),
          (''wal_enabled'', PBool (wal_enabled e)),
          (''compression_enabled'', PBool (use_compression e)),
          (''batch_size'', PInt (batch_size e))]"
  by (simp add: engine_getattr_def)

text \<open>
  Claim C9. \<^verbatim>\<open>get_performance_metrics\<close> returns a snapshot with the idle count, the
  maximum, the WAL flag, the compression flag, the batch size and the cache entry count.
  On the code the last value is read from \<^verbatim>\<open>self._query_cache_size\<close>, an attribute
  that the class neither declares nor assigns, so the display raises
  \<^verbatim>\<open>AttributeError\<close> and no snapshot is returned, for every state of the engine.
  (The five values before it are read as the claim says: \<open>metrics_declared_values\<close>.)
\<close>

theorem metrics_raise_attribute_error:
  "get_performance_metrics e = Inl (AttributeError ''_query_cache_size'')"
  by (simp add: get_performance_metrics_def engine_getattr_def)

end
